theory Spec2Isabelle
  imports Main "HOL-Library.Word" "HOL-Library.Sublist"
begin

section \<open>JavaScript strings\<close>

text \<open>
  A JavaScript string is a sequence of UTF-16 code units: \<open>length\<close>, indexing,
  \<open>split("")\<close>, \<open>substring\<close> and a regular expression without the \<open>u\<close> flag all
  work on code units. A string is therefore a list of 16-bit words. \<open>str\<close> embeds an
  ASCII literal of the source.
\<close>

type_synonym code_unit = "16 word"
type_synonym jsstring = "code_unit list"

definition str :: "string \<Rightarrow> jsstring" where
  "str s = map of_char s"

section \<open>lib/password-generator: options and errors\<close>

text \<open>
  \<open>PasswordOptions\<close> is the type inferred from \<open>PasswordOptionsSchema\<close>. The
  field \<open>length\<close> of the source is \<open>length_opt\<close> here (the name is taken by lists).
  The TypeScript signature of \<open>generate\<close> fixes the type of every field, and
  \<open>length\<close> is an integer here: a value of another type, and a number that is not an
  integer (which the schema's \<open>int()\<close> rejects), are outside the model. Of the
  schema's constraints the bounds on \<open>length\<close> remain. The schema's defaults only fill
  fields that are absent and never apply to a value of this type.
\<close>

record PasswordOptions =
  length_opt :: int
  includeUppercase :: bool
  includeLowercase :: bool
  includeNumbers :: bool
  includeSymbols :: bool
  includeExtraSymbols :: bool
  excludeSimilar :: bool
  excludeAmbiguous :: bool
  customChars :: "jsstring option"
  pattern :: "jsstring option"

text \<open>
  The three ways the generator can throw: the \<open>ZodError\<close> of
  \<open>PasswordOptionsSchema.parse\<close> (\<open>ValidationError\<close>), the \<open>Error\<close> thrown by
  \<open>generate\<close> on an empty charset (\<open>GenerationError\<close>), and the \<open>RangeError\<close> of
  \<open>crypto.randomInt\<close> when \<open>max\<close> is not greater than \<open>min\<close>.
\<close>

datatype error = ValidationError | GenerationError | RangeError

definition PasswordOptionsSchema_parse :: "PasswordOptions \<Rightarrow> error + PasswordOptions" where
  "PasswordOptionsSchema_parse options =
     (if 4 \<le> length_opt options \<and> length_opt options \<le> 128 then Inr options
      else Inl ValidationError)"

section \<open>lib/password-generator: character classes\<close>

definition LOWERCASE :: jsstring where
  "LOWERCASE = str ''abcdefghijklmnopqrstuvwxyz''"

definition UPPERCASE :: jsstring where
  "UPPERCASE = str ''ABCDEFGHIJKLMNOPQRSTUVWXYZ''"

definition NUMBERS :: jsstring where
  "NUMBERS = str ''0123456789''"

definition SYMBOLS :: jsstring where
  "SYMBOLS = str ''!@#$%^&*''"

definition EXTRA_SYMBOLS :: jsstring where
  "EXTRA_SYMBOLS = str ''()_+-=[]{}|;:,.<>?''"

definition SIMILAR_CHARS :: jsstring where
  "SIMILAR_CHARS = str ''il1Lo0O''"

text \<open>
  The source literal is \<open>{}[]()/\\'\"`~,;.<>\<close>: after the slash come a backslash
  (0x5C), an apostrophe (0x27), a quotation mark (0x22) and a grave accent (0x60).
\<close>

definition AMBIGUOUS_CHARS :: jsstring where
  "AMBIGUOUS_CHARS = str ''{}[]()/'' @ [0x5C, 0x27, 0x22, 0x60] @ str ''~,;.<>''"

text \<open>
  \<open>s.includes(char)\<close> for a one-unit string \<open>char\<close>, as produced by \<open>split("")\<close>.
\<close>

definition includes_unit :: "jsstring \<Rightarrow> code_unit \<Rightarrow> bool" where
  "includes_unit s char = List.member s char"

definition buildCharset :: "PasswordOptions \<Rightarrow> jsstring" where
  "buildCharset options =
     (let charset = [];
          charset = (if includeLowercase options then charset @ LOWERCASE else charset);
          charset = (if includeUppercase options then charset @ UPPERCASE else charset);
          charset = (if includeNumbers options then charset @ NUMBERS else charset);
          charset = (if includeSymbols options then charset @ SYMBOLS else charset);
          charset = (if includeExtraSymbols options then charset @ EXTRA_SYMBOLS else charset);
          charset = (if excludeSimilar options
                     then filter (\<lambda>char. \<not> includes_unit SIMILAR_CHARS char) charset
                     else charset);
          charset = (if excludeAmbiguous options
                     then filter (\<lambda>char. \<not> includes_unit AMBIGUOUS_CHARS char) charset
                     else charset)
      in charset)"

section \<open>lib/password-generator: sampling\<close>

text \<open>
  \<open>crypto.randomInt\<close> is the one collaborator of the generator. It is a parameter:
  \<open>rnd k n\<close> is what the \<open>k\<close>-th call of one \<open>generate\<close> returns when asked for an
  integer below \<open>n\<close>. Node promises \<open>0 \<le> rnd k n < n\<close>; the model does not assume it,
  the theorems that need it say so. With \<open>max \<le> min\<close> the call throws.
\<close>

type_synonym random_source = "nat \<Rightarrow> nat \<Rightarrow> nat"

definition randomInt :: "random_source \<Rightarrow> nat \<Rightarrow> nat \<Rightarrow> error + nat" where
  "randomInt rnd k charsetLength =
     (if charsetLength = 0 then Inl RangeError else Inr (rnd k charsetLength))"

text \<open>
  \<open>charset[randomIndex]\<close>: \<open>undefined\<close> (here \<open>None\<close>) outside the string.
\<close>

definition charAt :: "jsstring \<Rightarrow> nat \<Rightarrow> code_unit option" where
  "charAt charset randomIndex =
     (if randomIndex < length charset then Some (charset ! randomIndex) else None)"

text \<open>
  \<open>Array.prototype.join("")\<close> on an array of one-unit strings; a hole or
  \<open>undefined\<close> contributes the empty string.
\<close>

definition join :: "code_unit option list \<Rightarrow> jsstring" where
  "join password = concat (map (\<lambda>x. case x of None \<Rightarrow> [] | Some c \<Rightarrow> [c]) password)"

text \<open>
  The \<open>for\<close> loop of \<open>generateSecurePassword\<close>, from index \<open>i\<close> on; \<open>password\<close>
  is the array being filled.
\<close>

function generateSecurePassword_loop ::
  "random_source \<Rightarrow> jsstring \<Rightarrow> nat \<Rightarrow> nat \<Rightarrow> code_unit option list \<Rightarrow> error + code_unit option list"
where
  "generateSecurePassword_loop rnd charset len i password =
     (if i < len then
        (case randomInt rnd i (length charset) of
           Inl e \<Rightarrow> Inl e
         | Inr randomIndex \<Rightarrow>
             generateSecurePassword_loop rnd charset len (i + 1)
               (password[i := charAt charset randomIndex]))
      else Inr password)"
  by pat_completeness auto
termination
  by (relation "measure (\<lambda>(rnd, charset, len, i, password). len - i)") auto

declare generateSecurePassword_loop.simps [simp del]

definition generateSecurePassword :: "random_source \<Rightarrow> jsstring \<Rightarrow> nat \<Rightarrow> error + jsstring" where
  "generateSecurePassword rnd charset len =
     (case generateSecurePassword_loop rnd charset len 0 (replicate len None) of
        Inl e \<Rightarrow> Inl e
      | Inr password \<Rightarrow> Inr (join password))"

definition generateFromCustomChars :: "random_source \<Rightarrow> jsstring \<Rightarrow> nat \<Rightarrow> error + jsstring" where
  "generateFromCustomChars rnd customChars' len = generateSecurePassword rnd customChars' len"

text \<open>
  \<open>if (validatedOptions.customChars)\<close>: an absent field and the empty string are
  both falsy.
\<close>

definition truthy :: "jsstring option \<Rightarrow> bool" where
  "truthy s = (case s of None \<Rightarrow> False | Some cs \<Rightarrow> cs \<noteq> [])"

definition generate :: "random_source \<Rightarrow> PasswordOptions \<Rightarrow> error + jsstring" where
  "generate rnd options =
     (case PasswordOptionsSchema_parse options of
        Inl e \<Rightarrow> Inl e
      | Inr validatedOptions \<Rightarrow>
          if truthy (customChars validatedOptions) then
            generateFromCustomChars rnd (the (customChars validatedOptions))
              (nat (length_opt validatedOptions))
          else
            let charset = buildCharset validatedOptions in
            if length charset = 0 then Inl GenerationError
            else generateSecurePassword rnd charset (nat (length_opt validatedOptions)))"

section \<open>lib/password-generator: strength\<close>

datatype Level = VeryWeak | Weak | Fair | Good | Strong | VeryStrong

record StrengthResult =
  score :: int
  level :: Level
  feedback :: "string list"

text \<open>
  The regular expressions of \<open>calculateStrength\<close>, none with the \<open>u\<close> or \<open>s\<close>
  flag, each used through \<open>test\<close> (is there a match anywhere in the string).
  A character class matches one code unit.
\<close>

definition is_lower :: "code_unit \<Rightarrow> bool" where
  \<comment> \<open>\<open>[a-z]\<close>\<close>
  "is_lower c = (0x61 \<le> c \<and> c \<le> 0x7A)"

definition is_upper :: "code_unit \<Rightarrow> bool" where
  \<comment> \<open>\<open>[A-Z]\<close>\<close>
  "is_upper c = (0x41 \<le> c \<and> c \<le> 0x5A)"

definition is_digit :: "code_unit \<Rightarrow> bool" where
  \<comment> \<open>\<open>\d\<close>, which is \<open>[0-9]\<close> in JavaScript\<close>
  "is_digit c = (0x30 \<le> c \<and> c \<le> 0x39)"

definition is_special :: "code_unit \<Rightarrow> bool" where
  \<comment> \<open>\<open>[!@#$%^&*()_+\-=\[\]{}|;:,.<>?]\<close>\<close>
  "is_special c = List.member (str ''!@#$%^&*()_+-=[]{}|;:,.<>?'') c"

definition is_line_terminator :: "code_unit \<Rightarrow> bool" where
  \<comment> \<open>LF, CR, LINE SEPARATOR, PARAGRAPH SEPARATOR: what \<open>.\<close> does not match\<close>
  "is_line_terminator c = (c = 0x0A \<or> c = 0x0D \<or> c = 0x2028 \<or> c = 0x2029)"

definition test_class :: "(code_unit \<Rightarrow> bool) \<Rightarrow> jsstring \<Rightarrow> bool" where
  "test_class cls password = list_ex cls password"

text \<open>
  \<open>/(.)\1{2,}/.test(password)\<close>: at some position a unit that \<open>.\<close> matches is
  followed by at least two more copies of itself.
\<close>

fun test_repeating :: "jsstring \<Rightarrow> bool" where
  "test_repeating (a # b # c # rest) =
     ((\<not> is_line_terminator a \<and> b = a \<and> c = a) \<or> test_repeating (b # c # rest))"
| "test_repeating _ = False"

text \<open>
  Case-insensitive comparison without the \<open>u\<close> flag compares the units after
  \<open>Canonicalize\<close> (upper-casing). A unit from 128 on never canonicalizes to a unit
  below 128, so against the ASCII patterns used here only the ASCII letters change.
\<close>

definition canonicalize :: "code_unit \<Rightarrow> code_unit" where
  "canonicalize c = (if is_lower c then c - 0x20 else c)"

fun matches_at :: "jsstring \<Rightarrow> jsstring \<Rightarrow> bool" where
  "matches_at [] input = True"
| "matches_at (p # ps) [] = False"
| "matches_at (p # ps) (c # cs) = (canonicalize c = canonicalize p \<and> matches_at ps cs)"

text \<open>\<open>/123|abc|qwe/i.test(password)\<close>\<close>

fun test_sequences :: "jsstring \<Rightarrow> bool" where
  "test_sequences [] = False"
| "test_sequences (c # cs) =
     (matches_at (str ''123'') (c # cs) \<or> matches_at (str ''abc'') (c # cs)
      \<or> matches_at (str ''qwe'') (c # cs) \<or> test_sequences cs)"

definition calculateStrength :: "jsstring \<Rightarrow> StrengthResult" where
  "calculateStrength password =
     (let score = 0;
          feedback = [];
          (score, feedback) =
            (if length password \<ge> 12 then (score + 25, feedback)
             else if length password \<ge> 8 then (score + 15, feedback)
             else if length password \<ge> 6 then (score + 10, feedback)
             else (score, feedback @ [''Password should be at least 8 characters long'']));
          (score, feedback) =
            (if test_class is_lower password then (score + 15, feedback)
             else (score, feedback @ [''Add lowercase letters'']));
          (score, feedback) =
            (if test_class is_upper password then (score + 15, feedback)
             else (score, feedback @ [''Add uppercase letters'']));
          (score, feedback) =
            (if test_class is_digit password then (score + 15, feedback)
             else (score, feedback @ [''Add numbers'']));
          (score, feedback) =
            (if test_class is_special password then (score + 20, feedback)
             else (score, feedback @ [''Add special characters'']));
          (score, feedback) =
            (if test_repeating password
             then (score - 10, feedback @ [''Avoid repeating characters''])
             else (score, feedback));
          (score, feedback) =
            (if test_sequences password
             then (score - 15, feedback @ [''Avoid common sequences''])
             else (score, feedback));
          level =
            (if score \<ge> 90 then VeryStrong
             else if score \<ge> 75 then Strong
             else if score \<ge> 60 then Good
             else if score \<ge> 40 then Fair
             else if score \<ge> 20 then Weak
             else VeryWeak)
      in \<lparr>score = max 0 score, level = level, feedback = feedback\<rparr>)"

section \<open>lib/history\<close>

text \<open>
  The \<open>options\<close> object of a history entry has six of the fields of
  \<open>PasswordOptions\<close>; they carry the suffix \<open>_h\<close> here. The field \<open>id\<close>
  of an entry is \<open>id_entry\<close>.
\<close>

record HistoryEntryOptions =
  length_h :: int
  includeUppercase_h :: bool
  includeLowercase_h :: bool
  includeNumbers_h :: bool
  includeSymbols_h :: bool
  includeExtraSymbols_h :: bool

record HistoryEntry =
  id_entry :: jsstring
  password :: jsstring
  options :: HistoryEntryOptions
  createdAt :: jsstring

text \<open>
  The state of \<open>~/.gmana/history.json\<close>: no file, a file that cannot be read as
  JSON or that fails \<open>HistorySchema\<close>, or a file holding a list of entries.
\<close>

datatype history_file = Absent | Invalid | Stored "HistoryEntry list"

definition loadHistory :: "history_file \<Rightarrow> HistoryEntry list" where
  "loadHistory file =
     (case file of Stored rawHistory \<Rightarrow> rawHistory | Absent \<Rightarrow> [] | Invalid \<Rightarrow> [])"

text \<open>
  \<open>saveToHistory\<close> returns the file it writes. \<open>uuid\<close> and \<open>now\<close> are the values
  of \<open>crypto.randomUUID()\<close> and \<open>new Date().toISOString()\<close> at the call.
\<close>

definition saveToHistory ::
  "jsstring \<Rightarrow> jsstring \<Rightarrow> jsstring \<Rightarrow> PasswordOptions \<Rightarrow> history_file \<Rightarrow> history_file"
where
  "saveToHistory uuid now pw opts file =
     (let history = loadHistory file;
          entry = \<lparr>id_entry = uuid, password = pw,
                   options = \<lparr>length_h = length_opt opts,
                              includeUppercase_h = includeUppercase opts,
                              includeLowercase_h = includeLowercase opts,
                              includeNumbers_h = includeNumbers opts,
                              includeSymbols_h = includeSymbols opts,
                              includeExtraSymbols_h = includeExtraSymbols opts\<rparr>,
                   createdAt = now\<rparr>;
          history = entry # history;
          limitedHistory = take 100 history
      in Stored limitedHistory)"

section \<open>commands/history: masking\<close>

definition BULLET :: code_unit where
  \<comment> \<open>U+2022, the character of the source's literal\<close>
  "BULLET = 0x2022"

definition maskPassword :: "jsstring \<Rightarrow> jsstring" where
  "maskPassword pw =
     (if length pw \<le> 4 then [BULLET, BULLET, BULLET, BULLET]
      else
        let start = take 2 pw;
            end' = drop (length pw - 2) pw;
            middle = replicate (length pw - 4) BULLET
        in start @ middle @ end')"

section \<open>The specification's reading, and concrete inputs\<close>

text \<open>
  The score and the hints as the specification words them: a sum of independent terms,
  and one hint per term. They use the tests of the code.
\<close>

definition raw_score :: "jsstring \<Rightarrow> int" where
  "raw_score pw =
     (if 12 \<le> length pw then 25 else if 8 \<le> length pw then 15
      else if 6 \<le> length pw then 10 else 0)
     + (if test_class is_lower pw then 15 else 0)
     + (if test_class is_upper pw then 15 else 0)
     + (if test_class is_digit pw then 15 else 0)
     + (if test_class is_special pw then 20 else 0)
     - (if test_repeating pw then 10 else 0)
     - (if test_sequences pw then 15 else 0)"

definition hints :: "jsstring \<Rightarrow> string list" where
  "hints pw =
     (if length pw < 6 then [''Password should be at least 8 characters long''] else [])
     @ (if test_class is_lower pw then [] else [''Add lowercase letters''])
     @ (if test_class is_upper pw then [] else [''Add uppercase letters''])
     @ (if test_class is_digit pw then [] else [''Add numbers''])
     @ (if test_class is_special pw then [] else [''Add special characters''])
     @ (if test_repeating pw then [''Avoid repeating characters''] else [])
     @ (if test_sequences pw then [''Avoid common sequences''] else [])"

definition level_of :: "int \<Rightarrow> Level" where
  "level_of s =
     (if s \<ge> 90 then VeryStrong
      else if s \<ge> 75 then Strong
      else if s \<ge> 60 then Good
      else if s \<ge> 40 then Fair
      else if s \<ge> 20 then Weak
      else VeryWeak)"

text \<open>
  The enabled classes in the order lowercase, uppercase, numbers, symbols,
  extra-symbols, before any filter.
\<close>

definition enabled_classes :: "PasswordOptions \<Rightarrow> jsstring" where
  "enabled_classes opts =
     (if includeLowercase opts then LOWERCASE else []) @
     (if includeUppercase opts then UPPERCASE else []) @
     (if includeNumbers opts then NUMBERS else []) @
     (if includeSymbols opts then SYMBOLS else []) @
     (if includeExtraSymbols opts then EXTRA_SYMBOLS else [])"

text \<open>
  The pool \<open>generate\<close> samples from: the custom string when it is present and not
  empty, the built charset otherwise.
\<close>

definition resolved_pool :: "PasswordOptions \<Rightarrow> jsstring" where
  "resolved_pool opts =
     (case customChars opts of
        Some cs \<Rightarrow> if cs \<noteq> [] then cs else buildCharset opts
      | None \<Rightarrow> buildCharset opts)"

text \<open>A random source that keeps the promise of \<open>crypto.randomInt\<close>, for concrete runs.\<close>

definition stride7 :: random_source where
  "stride7 k n = (k * 7) mod n"

text \<open>The defaults of the schema, and variations of them.\<close>

definition default_options :: PasswordOptions where
  "default_options =
     \<lparr>length_opt = 12, includeUppercase = True, includeLowercase = True,
      includeNumbers = True, includeSymbols = True, includeExtraSymbols = False,
      excludeSimilar = False, excludeAmbiguous = False,
      customChars = None, pattern = None\<rparr>"

definition no_class_options :: PasswordOptions where
  "no_class_options =
     default_options\<lparr>includeUppercase := False, includeLowercase := False,
       includeNumbers := False, includeSymbols := False\<rparr>"

definition short_options :: PasswordOptions where
  "short_options = default_options\<lparr>length_opt := 3\<rparr>"

definition all_filtered_options :: PasswordOptions where
  "all_filtered_options =
     default_options\<lparr>includeExtraSymbols := True, excludeSimilar := True,
       excludeAmbiguous := True\<rparr>"

definition ab_options :: PasswordOptions where
  "ab_options = default_options\<lparr>length_opt := 10, customChars := Some (str ''ab'')\<rparr>"

definition similar_custom_options :: PasswordOptions where
  "similar_custom_options =
     default_options\<lparr>length_opt := 4, excludeSimilar := True,
       customChars := Some (str ''l1O'')\<rparr>"

definition no_similar_options :: PasswordOptions where
  "no_similar_options = default_options\<lparr>excludeSimilar := True\<rparr>"

section \<open>Properties of the sampling loop\<close>

lemma loop_result:
  assumes "charset \<noteq> []" and "i \<le> len" and "length arr = len"
  shows "generateSecurePassword_loop rnd charset len i arr =
           Inr (take i arr @ map (\<lambda>k. charAt charset (rnd k (length charset))) [i..<len])"
  using assms
proof (induction rnd charset len i arr rule: generateSecurePassword_loop.induct)
  case (1 rnd charset len i arr)
  show ?case
  proof (cases "i < len")
    case True
    have r: "randomInt rnd i (length charset) = Inr (rnd i (length charset))"
      using "1.prems"(1) by (simp add: randomInt_def)
    let ?x = "charAt charset (rnd i (length charset))"
    have step: "generateSecurePassword_loop rnd charset len (i + 1) (arr[i := ?x]) =
        Inr (take (i + 1) (arr[i := ?x]) @
             map (\<lambda>k. charAt charset (rnd k (length charset))) [i + 1..<len])"
      by (rule "1.IH" [OF True r]) (use True "1.prems" in simp_all)
    have tk: "take (i + 1) (arr[i := ?x]) = take i arr @ [?x]"
      using True "1.prems"(3) by (simp add: take_Suc_conv_app_nth)
    have up: "[i..<len] = i # [i + 1..<len]"
      using True by (simp add: upt_conv_Cons)
    show ?thesis
      by (subst generateSecurePassword_loop.simps)
         (simp only: True if_True r sum.case step tk up, simp)
  next
    case False
    then have "i = len" using "1.prems"(2) by simp
    then show ?thesis
      using "1.prems"(3) by (subst generateSecurePassword_loop.simps) simp
  qed
qed

lemma generateSecurePassword_drawn:
  assumes "charset \<noteq> []"
  shows "generateSecurePassword rnd charset len =
           Inr (join (map (\<lambda>k. charAt charset (rnd k (length charset))) [0..<len]))"
  using loop_result [OF assms, of 0 len "replicate len None" rnd]
  by (simp add: generateSecurePassword_def)

lemma set_join_charAt: "set (join (map (\<lambda>k. charAt charset (f k)) ks)) \<subseteq> set charset"
  by (induction ks) (auto simp: join_def charAt_def)

lemma join_in_range:
  assumes "\<And>k. k \<in> set ks \<Longrightarrow> f k < length charset"
  shows "join (map (\<lambda>k. charAt charset (f k)) ks) = map (\<lambda>k. charset ! f k) ks"
  using assms by (induction ks) (auto simp: join_def charAt_def)

lemma generateSecurePassword_empty:
  "generateSecurePassword rnd [] len = (if len = 0 then Inr [] else Inl RangeError)"
  by (subst generateSecurePassword_def, subst generateSecurePassword_loop.simps)
     (simp add: randomInt_def join_def)

section \<open>Properties of the charset builder\<close>

lemma concat_steps:
  "(if b then [] @ x else []) = (if b then x else [])"
  "(if b then c @ x else c) = c @ (if b then x else [])"
  by simp_all

lemma buildCharset_closed_form:
  "buildCharset opts =
     filter (\<lambda>c. excludeAmbiguous opts \<longrightarrow> c \<notin> set AMBIGUOUS_CHARS)
       (filter (\<lambda>c. excludeSimilar opts \<longrightarrow> c \<notin> set SIMILAR_CHARS) (enabled_classes opts))"
proof -
  have sim: "(if b then filter (\<lambda>char. \<not> includes_unit s char) cs else cs) =
      filter (\<lambda>c. b \<longrightarrow> c \<notin> set s) cs" for b s and cs :: jsstring
    by (simp add: includes_unit_def)
  show ?thesis
    unfolding buildCharset_def Let_def concat_steps sim enabled_classes_def append_assoc
      append_Nil
    by (rule refl)
qed

lemma set_buildCharset:
  "set (buildCharset opts) =
     {c \<in> set (enabled_classes opts).
        (excludeSimilar opts \<longrightarrow> c \<notin> set SIMILAR_CHARS) \<and>
        (excludeAmbiguous opts \<longrightarrow> c \<notin> set AMBIGUOUS_CHARS)}"
  by (auto simp: buildCharset_closed_form)

lemma survivors:
  "0x61 \<in> set LOWERCASE" "0x41 \<in> set UPPERCASE" "0x32 \<in> set NUMBERS"
  "0x21 \<in> set SYMBOLS" "0x5F \<in> set EXTRA_SYMBOLS"
  "0x61 \<notin> set SIMILAR_CHARS" "0x41 \<notin> set SIMILAR_CHARS" "0x32 \<notin> set SIMILAR_CHARS"
  "0x21 \<notin> set SIMILAR_CHARS" "0x5F \<notin> set SIMILAR_CHARS"
  "0x61 \<notin> set AMBIGUOUS_CHARS" "0x41 \<notin> set AMBIGUOUS_CHARS" "0x32 \<notin> set AMBIGUOUS_CHARS"
  "0x21 \<notin> set AMBIGUOUS_CHARS" "0x5F \<notin> set AMBIGUOUS_CHARS"
  by (simp_all add: LOWERCASE_def UPPERCASE_def NUMBERS_def SYMBOLS_def EXTRA_SYMBOLS_def
      SIMILAR_CHARS_def AMBIGUOUS_CHARS_def str_def)

lemma buildCharset_empty_iff:
  "buildCharset opts = [] \<longleftrightarrow>
     \<not> (includeLowercase opts \<or> includeUppercase opts \<or> includeNumbers opts \<or>
        includeSymbols opts \<or> includeExtraSymbols opts)"
proof
  assume empty: "buildCharset opts = []"
  have "set (buildCharset opts) = {}"
    by (simp add: empty)
  then have none: "c \<in> set (enabled_classes opts) \<Longrightarrow> c \<notin> set SIMILAR_CHARS \<Longrightarrow>
      c \<notin> set AMBIGUOUS_CHARS \<Longrightarrow> False" for c
    unfolding set_buildCharset by blast
  show "\<not> (includeLowercase opts \<or> includeUppercase opts \<or> includeNumbers opts \<or>
        includeSymbols opts \<or> includeExtraSymbols opts)"
  proof
    assume "includeLowercase opts \<or> includeUppercase opts \<or> includeNumbers opts \<or>
        includeSymbols opts \<or> includeExtraSymbols opts"
    then consider "includeLowercase opts" | "includeUppercase opts" | "includeNumbers opts"
      | "includeSymbols opts" | "includeExtraSymbols opts"
      by blast
    then show False
    proof cases
      case 1 then show False using none [of "0x61"] survivors by (simp add: enabled_classes_def)
    next
      case 2 then show False using none [of "0x41"] survivors by (simp add: enabled_classes_def)
    next
      case 3 then show False using none [of "0x32"] survivors by (simp add: enabled_classes_def)
    next
      case 4 then show False using none [of "0x21"] survivors by (simp add: enabled_classes_def)
    next
      case 5 then show False using none [of "0x5F"] survivors by (simp add: enabled_classes_def)
    qed
  qed
next
  assume "\<not> (includeLowercase opts \<or> includeUppercase opts \<or> includeNumbers opts \<or>
        includeSymbols opts \<or> includeExtraSymbols opts)"
  then show "buildCharset opts = []"
    by (simp add: buildCharset_closed_form enabled_classes_def)
qed

text \<open>
  Claim C7. The built charset is the concatenation of the enabled classes in the order
  lowercase, uppercase, numbers, symbols, extra-symbols, filtered first by the similar
  characters (when \<open>excludeSimilar\<close> is set) and then by the ambiguous ones (when
  \<open>excludeAmbiguous\<close> is set). It is a subsequence of that concatenation, so the
  survivors keep their relative order. It is a function of the options alone, and of
  their class and exclusion flags only.
\<close>

theorem buildCharset_spec:
  "buildCharset opts =
     filter (\<lambda>c. excludeAmbiguous opts \<longrightarrow> c \<notin> set AMBIGUOUS_CHARS)
       (filter (\<lambda>c. excludeSimilar opts \<longrightarrow> c \<notin> set SIMILAR_CHARS) (enabled_classes opts)) \<and>
   subseq (buildCharset opts) (enabled_classes opts) \<and>
   buildCharset (opts\<lparr>length_opt := n, customChars := cc, pattern := pat\<rparr>) = buildCharset opts"
proof (intro conjI)
  show "buildCharset opts =
     filter (\<lambda>c. excludeAmbiguous opts \<longrightarrow> c \<notin> set AMBIGUOUS_CHARS)
       (filter (\<lambda>c. excludeSimilar opts \<longrightarrow> c \<notin> set SIMILAR_CHARS) (enabled_classes opts))"
    by (rule buildCharset_closed_form)
  have "subseq (buildCharset opts)
      (filter (\<lambda>c. excludeSimilar opts \<longrightarrow> c \<notin> set SIMILAR_CHARS) (enabled_classes opts))"
    unfolding buildCharset_closed_form by (rule subseq_filter_left)
  also have "subseq \<dots> (enabled_classes opts)"
    by (rule subseq_filter_left)
  finally show "subseq (buildCharset opts) (enabled_classes opts)" .
  show "buildCharset (opts\<lparr>length_opt := n, customChars := cc, pattern := pat\<rparr>) =
      buildCharset opts"
    by (simp add: buildCharset_closed_form enabled_classes_def)
qed

theorem buildCharset_spec_witness:
  "buildCharset all_filtered_options =
     str ''abcdefghjkmnpqrstuvwxyzABCDEFGHIJKMNPQRSTUVWXYZ23456789!@#$%^&*_+-=|:?'' \<and>
   enabled_classes all_filtered_options =
     LOWERCASE @ UPPERCASE @ NUMBERS @ SYMBOLS @ EXTRA_SYMBOLS \<and>
   subseq (str ''abcdefghjkmnpqrstuvwxyzABCDEFGHIJKMNPQRSTUVWXYZ23456789!@#$%^&*_+-=|:?'')
     (LOWERCASE @ UPPERCASE @ NUMBERS @ SYMBOLS @ EXTRA_SYMBOLS)"
proof -
  have cls: "enabled_classes all_filtered_options =
      LOWERCASE @ UPPERCASE @ NUMBERS @ SYMBOLS @ EXTRA_SYMBOLS"
    by (simp add: enabled_classes_def all_filtered_options_def default_options_def)
  have flags: "excludeSimilar all_filtered_options" "excludeAmbiguous all_filtered_options"
    by (simp_all add: all_filtered_options_def)
  note spec = buildCharset_spec [where opts = all_filtered_options and n = 12 and cc = None and pat = None]
  have val: "buildCharset all_filtered_options =
      str ''abcdefghjkmnpqrstuvwxyzABCDEFGHIJKMNPQRSTUVWXYZ23456789!@#$%^&*_+-=|:?''"
    by (subst conjunct1 [OF spec])
       (simp add: cls flags LOWERCASE_def UPPERCASE_def NUMBERS_def SYMBOLS_def
        EXTRA_SYMBOLS_def SIMILAR_CHARS_def AMBIGUOUS_CHARS_def str_def)
  have sub: "subseq (buildCharset all_filtered_options) (enabled_classes all_filtered_options)"
    by (rule conjunct1 [OF conjunct2 [OF spec]])
  show ?thesis
    using val cls sub [unfolded val cls] by (intro conjI)
qed

section \<open>Properties of generate\<close>

lemma parse_cases:
  "PasswordOptionsSchema_parse opts = Inr opts \<or>
   PasswordOptionsSchema_parse opts = Inl ValidationError"
  by (simp add: PasswordOptionsSchema_parse_def)

lemma resolved_pool_custom:
  "truthy (customChars opts) \<Longrightarrow> resolved_pool opts = the (customChars opts)"
  by (auto simp: truthy_def resolved_pool_def split: option.splits)

lemma resolved_pool_built:
  "\<not> truthy (customChars opts) \<Longrightarrow> resolved_pool opts = buildCharset opts"
  by (auto simp: truthy_def resolved_pool_def split: option.splits)

lemma generate_invalid:
  "PasswordOptionsSchema_parse opts = Inl ValidationError \<Longrightarrow>
     generate rnd opts = Inl ValidationError"
  by (simp add: generate_def)

lemma generate_empty_pool:
  assumes "PasswordOptionsSchema_parse opts = Inr opts" and "resolved_pool opts = []"
  shows "generate rnd opts = Inl GenerationError"
proof -
  have nt: "\<not> truthy (customChars opts)"
    using assms(2) by (auto simp: truthy_def resolved_pool_def split: option.splits if_splits)
  then have "buildCharset opts = []"
    using assms(2) by (simp add: resolved_pool_built)
  then show ?thesis
    using assms(1) nt by (simp add: generate_def)
qed

lemma generate_drawn:
  assumes "PasswordOptionsSchema_parse opts = Inr opts" and "resolved_pool opts \<noteq> []"
  shows "generate rnd opts =
     Inr (join (map (\<lambda>k. charAt (resolved_pool opts) (rnd k (length (resolved_pool opts))))
            [0..<nat (length_opt opts)]))"
proof (cases "truthy (customChars opts)")
  case True
  then show ?thesis
    using assms generateSecurePassword_drawn [of "the (customChars opts)"]
    by (simp add: generate_def generateFromCustomChars_def resolved_pool_custom)
next
  case False
  then show ?thesis
    using assms generateSecurePassword_drawn [of "buildCharset opts"]
    by (simp add: generate_def resolved_pool_built Let_def)
qed

lemma parse_valid_iff:
  "PasswordOptionsSchema_parse opts = Inr opts \<longleftrightarrow> 4 \<le> length_opt opts \<and> length_opt opts \<le> 128"
  by (simp add: PasswordOptionsSchema_parse_def)

lemma parse_invalid_iff:
  "PasswordOptionsSchema_parse opts = Inl ValidationError \<longleftrightarrow>
     \<not> (4 \<le> length_opt opts \<and> length_opt opts \<le> 128)"
  by (simp add: PasswordOptionsSchema_parse_def)

lemma resolved_pool_empty_iff:
  "resolved_pool opts = [] \<longleftrightarrow>
     \<not> truthy (customChars opts) \<and>
     \<not> (includeLowercase opts \<or> includeUppercase opts \<or> includeNumbers opts \<or>
        includeSymbols opts \<or> includeExtraSymbols opts)"
  by (cases "truthy (customChars opts)")
     (auto simp: resolved_pool_built buildCharset_empty_iff resolved_pool_custom truthy_def
        split: option.splits)

lemma upt12: "[0..<12] = [0, 1, 2, 3, 4, 5, 6, 7, 8, 9, 10, 11]"
  by (simp add: upt_rec)

lemma upt10: "[0..<10] = [0, 1, 2, 3, 4, 5, 6, 7, 8, 9]"
  by (simp add: upt_rec)

lemma upt4: "[0..<4] = [0, 1, 2, 3]"
  by (simp add: upt_rec)

lemma no_similar_pool_units:
  "buildCharset no_similar_options =
     str ''abcdefghjkmnpqrstuvwxyzABCDEFGHIJKMNPQRSTUVWXYZ23456789!@#$%^&*''"
  by (simp add: buildCharset_closed_form enabled_classes_def no_similar_options_def
      default_options_def LOWERCASE_def UPPERCASE_def NUMBERS_def SYMBOLS_def
      SIMILAR_CHARS_def str_def)

lemma pool_units:
  "LOWERCASE @ UPPERCASE @ NUMBERS @ SYMBOLS =
     str ''abcdefghijklmnopqrstuvwxyzABCDEFGHIJKLMNOPQRSTUVWXYZ0123456789!@#$%^&*''"
  by (simp add: LOWERCASE_def UPPERCASE_def NUMBERS_def SYMBOLS_def str_def)

text \<open>
  Claim C1, as it is stated, at options the schema accepts with every class flag off and
  no custom characters: \<open>generate\<close> returns no string, it throws.
\<close>

theorem generate_no_class_counterexample:
  "PasswordOptionsSchema_parse no_class_options = Inr no_class_options \<and>
   generate stride7 no_class_options = Inl GenerationError"
  by (simp add: generate_def PasswordOptionsSchema_parse_def no_class_options_def
      default_options_def truthy_def buildCharset_def)

text \<open>
  Claim C1, amended. For options the schema accepts whose resolved pool is not empty,
  and a random source that returns an index below its bound, \<open>generate\<close> returns a
  string of exactly \<open>length\<close> units, each an element of the resolved pool.
\<close>

theorem generate_length_and_pool:
  assumes "PasswordOptionsSchema_parse opts = Inr opts"
    and "resolved_pool opts \<noteq> []"
    and "\<And>k n. 0 < n \<Longrightarrow> rnd k n < n"
  shows "\<exists>pw. generate rnd opts = Inr pw \<and> int (length pw) = length_opt opts \<and>
           set pw \<subseteq> set (resolved_pool opts)"
proof -
  let ?pool = "resolved_pool opts"
  let ?pw = "join (map (\<lambda>k. charAt ?pool (rnd k (length ?pool))) [0..<nat (length_opt opts)])"
  have gen: "generate rnd opts = Inr ?pw"
    by (rule generate_drawn [OF assms(1,2)])
  have "?pw = map (\<lambda>k. ?pool ! rnd k (length ?pool)) [0..<nat (length_opt opts)]"
    by (rule join_in_range) (simp add: assms(2,3))
  then have "length ?pw = nat (length_opt opts)"
    by simp
  moreover have "0 \<le> length_opt opts"
    using assms(1) by (simp add: PasswordOptionsSchema_parse_def split: if_splits)
  ultimately have len: "int (length ?pw) = length_opt opts"
    by simp
  have "set ?pw \<subseteq> set ?pool"
    by (rule set_join_charAt)
  with gen len show ?thesis
    by blast
qed

theorem generate_length_and_pool_witness:
  "PasswordOptionsSchema_parse default_options = Inr default_options \<and>
   resolved_pool default_options = LOWERCASE @ UPPERCASE @ NUMBERS @ SYMBOLS \<and>
   generate stride7 default_options = Inr (str ''ahovCJQX4@ah'') \<and>
   length (str ''ahovCJQX4@ah'') = 12 \<and>
   set (str ''ahovCJQX4@ah'') \<subseteq> set (LOWERCASE @ UPPERCASE @ NUMBERS @ SYMBOLS)"
proof -
  have ok: "PasswordOptionsSchema_parse default_options = Inr default_options"
    by (simp add: PasswordOptionsSchema_parse_def default_options_def)
  have pool: "resolved_pool default_options = LOWERCASE @ UPPERCASE @ NUMBERS @ SYMBOLS"
    by (simp add: resolved_pool_def buildCharset_def default_options_def)
  have ne: "resolved_pool default_options \<noteq> []"
    by (simp add: pool pool_units str_def)
  have src: "\<And>k n. 0 < n \<Longrightarrow> stride7 k n < n"
    by (simp add: stride7_def)
  have len: "length_opt default_options = 12"
    by (simp add: default_options_def)
  have run: "generate stride7 default_options = Inr (str ''ahovCJQX4@ah'')"
    by (simp add: generate_drawn [OF ok ne] pool pool_units len upt12 stride7_def
        charAt_def join_def str_def)
  from generate_length_and_pool [where rnd = stride7, OF ok ne src] ok pool run len
  show ?thesis
    by auto
qed

text \<open>
  Claim C2. \<open>generate\<close> throws exactly when the schema rejects the options (the
  length is outside 4..128) or the resolved pool is empty; the first is the validation
  error, the second the generation error, and \<open>crypto.randomInt\<close> never throws. With
  accepted options and some class enabled there is no generation error; with accepted
  options, every class off and no custom characters there is one.
\<close>

theorem generate_errors:
  "((\<exists>e. generate rnd opts = Inl e) \<longleftrightarrow>
      PasswordOptionsSchema_parse opts = Inl ValidationError \<or> resolved_pool opts = []) \<and>
   (PasswordOptionsSchema_parse opts = Inl ValidationError \<longleftrightarrow>
      \<not> (4 \<le> length_opt opts \<and> length_opt opts \<le> 128)) \<and>
   (generate rnd opts = Inl ValidationError \<longleftrightarrow>
      PasswordOptionsSchema_parse opts = Inl ValidationError) \<and>
   (generate rnd opts = Inl GenerationError \<longleftrightarrow>
      PasswordOptionsSchema_parse opts = Inr opts \<and> resolved_pool opts = []) \<and>
   generate rnd opts \<noteq> Inl RangeError \<and>
   (PasswordOptionsSchema_parse opts = Inr opts \<and>
      (includeLowercase opts \<or> includeUppercase opts \<or> includeNumbers opts \<or>
       includeSymbols opts \<or> includeExtraSymbols opts) \<longrightarrow>
      generate rnd opts \<noteq> Inl GenerationError) \<and>
   (PasswordOptionsSchema_parse opts = Inr opts \<and>
      \<not> includeLowercase opts \<and> \<not> includeUppercase opts \<and> \<not> includeNumbers opts \<and>
      \<not> includeSymbols opts \<and> \<not> includeExtraSymbols opts \<and> customChars opts = None \<longrightarrow>
      generate rnd opts = Inl GenerationError)"
proof -
  consider (invalid) "PasswordOptionsSchema_parse opts = Inl ValidationError"
    | (empty) "PasswordOptionsSchema_parse opts = Inr opts" "resolved_pool opts = []"
    | (drawn) "PasswordOptionsSchema_parse opts = Inr opts" "resolved_pool opts \<noteq> []"
    using parse_cases [of opts] by blast
  then show ?thesis
  proof cases
    case invalid
    then show ?thesis
      using generate_invalid [OF invalid, of rnd] invalid [unfolded parse_invalid_iff]
      by (simp add: invalid)
  next
    case empty
    have "generate rnd opts = Inl GenerationError"
      by (rule generate_empty_pool [OF empty])
    then show ?thesis
      using empty empty(1) [unfolded parse_valid_iff] by (simp add: resolved_pool_empty_iff)
  next
    case drawn
    have "\<exists>pw. generate rnd opts = Inr pw"
      using generate_drawn [OF drawn, of rnd] by blast
    then obtain pw where "generate rnd opts = Inr pw" ..
    then show ?thesis
      using drawn drawn(1) [unfolded parse_valid_iff] drawn(2) [unfolded resolved_pool_empty_iff]
      by (auto simp: truthy_def split: option.splits)
  qed
qed

theorem generate_errors_witness:
  "generate stride7 short_options = Inl ValidationError \<and>
   generate stride7 no_class_options = Inl GenerationError \<and>
   generate stride7 default_options \<noteq> Inl GenerationError \<and>
   generate stride7 default_options \<noteq> Inl ValidationError"
proof -
  have short: "PasswordOptionsSchema_parse short_options = Inl ValidationError"
    by (simp add: PasswordOptionsSchema_parse_def short_options_def default_options_def)
  have none: "PasswordOptionsSchema_parse no_class_options = Inr no_class_options"
    "\<not> includeLowercase no_class_options" "\<not> includeUppercase no_class_options"
    "\<not> includeNumbers no_class_options" "\<not> includeSymbols no_class_options"
    "\<not> includeExtraSymbols no_class_options" "customChars no_class_options = None"
    by (simp_all add: PasswordOptionsSchema_parse_def no_class_options_def default_options_def)
  have dflt: "PasswordOptionsSchema_parse default_options = Inr default_options"
    "includeLowercase default_options"
    by (simp_all add: PasswordOptionsSchema_parse_def default_options_def)
  have a: "generate stride7 short_options = Inl ValidationError"
    using generate_errors [of stride7 short_options] short by blast
  have b: "generate stride7 no_class_options = Inl GenerationError"
    using generate_errors [of stride7 no_class_options] none by blast
  have c: "generate stride7 default_options \<noteq> Inl GenerationError"
    using generate_errors [of stride7 default_options] dflt by blast
  have d: "generate stride7 default_options \<noteq> Inl ValidationError"
    using generate_errors [of stride7 default_options] dflt by simp
  show ?thesis
    using a b c d by (intro conjI)
qed

text \<open>
  Claim C5. With options the schema accepts and a custom string that is present and not
  empty, \<open>generate\<close> samples that string as it is: unit \<open>k\<close> of the result is the
  unit of the custom string at the \<open>k\<close>-th random index, taken over the whole string,
  duplicates included. The class flags and the two exclusion flags do not change the
  result. With the custom string \<open>ab\<close> the result holds only \<open>a\<close> and \<open>b\<close>.
\<close>

theorem generate_customChars:
  assumes "PasswordOptionsSchema_parse opts = Inr opts"
    and "customChars opts = Some cs"
    and "cs \<noteq> []"
  shows "generate rnd opts = generateSecurePassword rnd cs (nat (length_opt opts)) \<and>
     generate rnd opts =
       Inr (join (map (\<lambda>k. charAt cs (rnd k (length cs))) [0..<nat (length_opt opts)])) \<and>
     (\<exists>pw. generate rnd opts = Inr pw \<and> set pw \<subseteq> set cs) \<and>
     generate rnd
       (opts\<lparr>includeUppercase := u, includeLowercase := l, includeNumbers := n,
          includeSymbols := s, includeExtraSymbols := x, excludeSimilar := es,
          excludeAmbiguous := ea\<rparr>) = generate rnd opts \<and>
     (cs = str ''ab'' \<longrightarrow>
        (\<exists>pw. generate rnd opts = Inr pw \<and> set pw \<subseteq> {of_char CHR ''a'', of_char CHR ''b''}))"
proof -
  have t: "truthy (customChars opts)"
    using assms(2,3) by (simp add: truthy_def)
  have direct: "generate rnd opts = generateSecurePassword rnd cs (nat (length_opt opts))"
    using assms(1,2) t by (simp add: generate_def generateFromCustomChars_def)
  have drawn: "generate rnd opts =
       Inr (join (map (\<lambda>k. charAt cs (rnd k (length cs))) [0..<nat (length_opt opts)]))"
    unfolding direct by (rule generateSecurePassword_drawn [OF assms(3)])
  have sub: "\<exists>pw. generate rnd opts = Inr pw \<and> set pw \<subseteq> set cs"
    unfolding drawn by (simp add: set_join_charAt)
  let ?opts' = "opts\<lparr>includeUppercase := u, includeLowercase := l, includeNumbers := n,
          includeSymbols := s, includeExtraSymbols := x, excludeSimilar := es,
          excludeAmbiguous := ea\<rparr>"
  have "PasswordOptionsSchema_parse ?opts' = Inr ?opts'"
    using assms(1) by (simp add: PasswordOptionsSchema_parse_def split: if_splits)
  moreover have "truthy (customChars ?opts')"
    using t by simp
  ultimately have "generate rnd ?opts' = generateSecurePassword rnd cs (nat (length_opt opts))"
    using assms(2) by (simp add: generate_def generateFromCustomChars_def)
  then have flags: "generate rnd ?opts' = generate rnd opts"
    by (simp add: direct)
  have ab: "cs = str ''ab'' \<longrightarrow>
        (\<exists>pw. generate rnd opts = Inr pw \<and> set pw \<subseteq> {of_char CHR ''a'', of_char CHR ''b''})"
  proof
    assume "cs = str ''ab''"
    then have "set cs = {of_char CHR ''a'', of_char CHR ''b''}"
      by (simp add: str_def)
    with sub show "\<exists>pw. generate rnd opts = Inr pw \<and>
        set pw \<subseteq> {of_char CHR ''a'', of_char CHR ''b''}"
      by simp
  qed
  from direct drawn sub flags ab show ?thesis
    by (intro conjI)
qed

theorem generate_customChars_witness:
  "generate stride7 ab_options = Inr (str ''ababababab'') \<and>
   generate stride7
     (ab_options\<lparr>includeUppercase := False, includeLowercase := False,
        includeNumbers := False, includeSymbols := False, includeExtraSymbols := False,
        excludeSimilar := True, excludeAmbiguous := True\<rparr>) = Inr (str ''ababababab'') \<and>
   set (str ''ababababab'') \<subseteq> {of_char CHR ''a'', of_char CHR ''b''}"
proof -
  have ok: "PasswordOptionsSchema_parse ab_options = Inr ab_options"
    by (simp add: PasswordOptionsSchema_parse_def ab_options_def default_options_def)
  have cc: "customChars ab_options = Some (str ''ab'')"
    by (simp add: ab_options_def)
  have ne: "str ''ab'' \<noteq> []"
    by (simp add: str_def)
  have len: "length_opt ab_options = 10"
    by (simp add: ab_options_def)
  note inst = generate_customChars [OF ok cc ne, where rnd = stride7 and u = False and l = False
      and n = False and s = False and x = False and es = True and ea = True]
  have l2: "length (str ''ab'') = 2"
    by (simp add: str_def)
  have run: "generate stride7 ab_options = Inr (str ''ababababab'')"
    by (subst conjunct1 [OF conjunct2 [OF inst]], simp only: l2 len)
       (simp add: upt10 stride7_def charAt_def join_def str_def)
  have same: "generate stride7
     (ab_options\<lparr>includeUppercase := False, includeLowercase := False,
        includeNumbers := False, includeSymbols := False, includeExtraSymbols := False,
        excludeSimilar := True, excludeAmbiguous := True\<rparr>) = generate stride7 ab_options"
    by (rule conjunct1 [OF conjunct2 [OF conjunct2 [OF conjunct2 [OF inst]]]])
  have "\<exists>pw. generate stride7 ab_options = Inr pw \<and>
      set pw \<subseteq> {of_char CHR ''a'', of_char CHR ''b''}"
    by (rule mp [OF conjunct2 [OF conjunct2 [OF conjunct2 [OF conjunct2 [OF inst]]]] refl])
  then have only: "set (str ''ababababab'') \<subseteq> {of_char CHR ''a'', of_char CHR ''b''}"
    by (simp add: run)
  show ?thesis
    using run same only by simp
qed

text \<open>
  Claim C6, as it is stated, at options with \<open>excludeSimilar\<close> set and the custom
  string \<open>l1O\<close>: the result is made of similar characters only.
\<close>

theorem generate_excludeSimilar_counterexample:
  "excludeSimilar similar_custom_options \<and>
   PasswordOptionsSchema_parse similar_custom_options = Inr similar_custom_options \<and>
   generate stride7 similar_custom_options = Inr (str ''l1Ol'') \<and>
   set (str ''l1Ol'') \<subseteq> set (str ''il1Lo0O'')"
proof -
  have ok: "PasswordOptionsSchema_parse similar_custom_options = Inr similar_custom_options"
    by (simp add: PasswordOptionsSchema_parse_def similar_custom_options_def default_options_def)
  have pool: "resolved_pool similar_custom_options = str ''l1O''"
    by (simp add: resolved_pool_def similar_custom_options_def str_def)
  have ne: "resolved_pool similar_custom_options \<noteq> []"
    by (simp add: pool str_def)
  have len: "length_opt similar_custom_options = 4"
    by (simp add: similar_custom_options_def)
  have run: "generate stride7 similar_custom_options = Inr (str ''l1Ol'')"
    by (simp add: generate_drawn [OF ok ne] pool len upt4 stride7_def charAt_def join_def str_def)
  have "excludeSimilar similar_custom_options"
    by (simp add: similar_custom_options_def)
  moreover have "set (str ''l1Ol'') \<subseteq> set (str ''il1Lo0O'')"
    by (simp add: str_def)
  ultimately show ?thesis
    using ok run by (intro conjI)
qed

text \<open>
  Claim C6, amended. With \<open>excludeSimilar\<close> set and no custom string (absent or
  empty), no unit of a string that \<open>generate\<close> returns is one of \<open>i l 1 L o 0 O\<close>;
  and a string is returned whenever the schema accepts the options and a class is
  enabled.
\<close>

theorem generate_excludeSimilar:
  assumes "excludeSimilar opts"
    and "customChars opts = None \<or> customChars opts = Some []"
  shows "(\<forall>pw. generate rnd opts = Inr pw \<longrightarrow> set pw \<inter> set (str ''il1Lo0O'') = {}) \<and>
     (PasswordOptionsSchema_parse opts = Inr opts \<and>
        (includeLowercase opts \<or> includeUppercase opts \<or> includeNumbers opts \<or>
         includeSymbols opts \<or> includeExtraSymbols opts) \<longrightarrow>
        (\<exists>pw. generate rnd opts = Inr pw))"
proof (intro conjI allI impI)
  have nt: "\<not> truthy (customChars opts)"
    using assms(2) by (auto simp: truthy_def)
  have pool: "resolved_pool opts = buildCharset opts"
    by (rule resolved_pool_built [OF nt])
  have clean: "set (buildCharset opts) \<inter> set SIMILAR_CHARS = {}"
    using assms(1) by (auto simp: set_buildCharset)
  {
    fix pw assume ret: "generate rnd opts = Inr pw"
    have ok: "PasswordOptionsSchema_parse opts = Inr opts"
      using ret parse_cases [of opts] generate_invalid [of opts rnd] by auto
    have ne: "resolved_pool opts \<noteq> []"
      using ret generate_empty_pool [OF ok, of rnd] by auto
    have "pw = join (map (\<lambda>k. charAt (resolved_pool opts) (rnd k (length (resolved_pool opts))))
            [0..<nat (length_opt opts)])"
      using ret generate_drawn [OF ok ne, of rnd] by simp
    then have "set pw \<subseteq> set (buildCharset opts)"
      using set_join_charAt [of "resolved_pool opts"] by (simp add: pool)
    then show "set pw \<inter> set (str ''il1Lo0O'') = {}"
      using clean by (auto simp: SIMILAR_CHARS_def)
  }
  assume en: "PasswordOptionsSchema_parse opts = Inr opts \<and>
        (includeLowercase opts \<or> includeUppercase opts \<or> includeNumbers opts \<or>
         includeSymbols opts \<or> includeExtraSymbols opts)"
  then have "resolved_pool opts \<noteq> []"
    by (simp add: pool buildCharset_empty_iff)
  with en show "\<exists>pw. generate rnd opts = Inr pw"
    using generate_drawn [of opts rnd] by blast
qed

theorem generate_excludeSimilar_witness:
  "generate stride7 no_similar_options = Inr (str ''ahryFNV4@ahr'') \<and>
   set (str ''ahryFNV4@ahr'') \<inter> set (str ''il1Lo0O'') = {}"
proof -
  have ok: "PasswordOptionsSchema_parse no_similar_options = Inr no_similar_options"
    by (simp add: PasswordOptionsSchema_parse_def no_similar_options_def default_options_def)
  have flag: "excludeSimilar no_similar_options"
    by (simp add: no_similar_options_def)
  have cc: "customChars no_similar_options = None \<or> customChars no_similar_options = Some []"
    by (simp add: no_similar_options_def default_options_def)
  have pool: "resolved_pool no_similar_options = buildCharset no_similar_options"
    by (simp add: resolved_pool_def no_similar_options_def default_options_def)
  have ne: "resolved_pool no_similar_options \<noteq> []"
    by (simp add: pool no_similar_pool_units str_def)
  have len: "length_opt no_similar_options = 12"
    by (simp add: no_similar_options_def default_options_def)
  have run: "generate stride7 no_similar_options = Inr (str ''ahryFNV4@ahr'')"
    by (simp add: generate_drawn [OF ok ne] pool no_similar_pool_units len upt12 stride7_def
        charAt_def join_def str_def)
  from generate_excludeSimilar [OF flag cc, where rnd = stride7] run show ?thesis
    by blast
qed

section \<open>Properties of calculateStrength\<close>

lemma step_add:
  "(if b then (s + k, f) else (s, f @ m)) =
     (s + (if b then k else 0), f @ (if b then [] else m))"
  for s k :: int
  by simp

lemma step_add_else:
  "(if b then (s + k, f) else (s + x, f @ y)) =
     (s + (if b then k else x), f @ (if b then [] else y))"
  for s k :: int
  by simp

lemma step_sub:
  "(if b then (s - k, f @ m) else (s, f)) =
     (s - (if b then k else 0), f @ (if b then m else []))"
  for s k :: int
  by simp

lemma calculateStrength_unfold:
  "calculateStrength pw =
     \<lparr>score = max 0 (raw_score pw), level = level_of (raw_score pw), feedback = hints pw\<rparr>"
proof -
  have len_hint:
    "(if 12 \<le> length pw then [] else if 8 \<le> length pw then []
      else if 6 \<le> length pw then [] else m) = (if length pw < 6 then m else [])"
    for m :: "string list"
    by auto
  show ?thesis
    unfolding calculateStrength_def Let_def step_add step_add_else step_sub prod.case
      raw_score_def hints_def level_of_def len_hint
    by (simp only: add_0 append_Nil append_assoc)
qed

lemma score_calculateStrength: "score (calculateStrength pw) = max 0 (raw_score pw)"
  by (simp add: calculateStrength_unfold)

lemma level_calculateStrength: "level (calculateStrength pw) = level_of (raw_score pw)"
  by (simp add: calculateStrength_unfold)

lemma feedback_calculateStrength: "feedback (calculateStrength pw) = hints pw"
  by (simp add: calculateStrength_unfold)

lemma raw_score_le: "raw_score pw \<le> 90"
  by (simp add: raw_score_def)

text \<open>
  What the repetition test decides: three equal units in a row, the first of which is
  not a line terminator.
\<close>

lemma ex_first_or_later: "(\<exists>i. Q i) \<longleftrightarrow> Q 0 \<or> (\<exists>i. Q (Suc i))"
proof
  assume "\<exists>i. Q i"
  then obtain i where "Q i" ..
  then show "Q 0 \<or> (\<exists>i. Q (Suc i))"
    by (cases i) auto
next
  assume "Q 0 \<or> (\<exists>i. Q (Suc i))"
  then show "\<exists>i. Q i"
    by auto
qed

lemma test_repeating_iff:
  "test_repeating pw \<longleftrightarrow>
     (\<exists>i. i + 2 < length pw \<and> \<not> is_line_terminator (pw ! i) \<and>
          pw ! (i + 1) = pw ! i \<and> pw ! (i + 2) = pw ! i)"
proof (induction pw rule: test_repeating.induct)
  case (1 a b c rest)
  let ?P = "\<lambda>xs i. i + 2 < length xs \<and> \<not> is_line_terminator (xs ! i) \<and>
          xs ! (i + 1) = xs ! i \<and> xs ! (i + 2) = xs ! i"
  have shift: "?P (a # b # c # rest) (Suc i) \<longleftrightarrow> ?P (b # c # rest) i" for i
    by simp
  have zero: "?P (a # b # c # rest) 0 \<longleftrightarrow> \<not> is_line_terminator a \<and> b = a \<and> c = a"
    by simp
  have "(\<exists>i. ?P (a # b # c # rest) i) \<longleftrightarrow>
      ?P (a # b # c # rest) 0 \<or> (\<exists>i. ?P (a # b # c # rest) (Suc i))"
    by (rule ex_first_or_later)
  also have "\<dots> \<longleftrightarrow> (\<not> is_line_terminator a \<and> b = a \<and> c = a) \<or> (\<exists>i. ?P (b # c # rest) i)"
    unfolding shift zero ..
  finally show ?case
    using "1.IH" by simp
qed simp_all

lemma calculateStrength_example:
  "calculateStrength (str ''Aa1!Aa1!Aa1!'') =
     \<lparr>score = 90, level = VeryStrong, feedback = []\<rparr>"
  by (simp add: calculateStrength_def test_class_def str_def is_lower_def is_upper_def
      is_digit_def is_special_def is_line_terminator_def canonicalize_def)

text \<open>
  Claim C3, at the password \<open>Aa1!Aa1!\<close> followed by four line feeds. The line feed
  repeats four times in a row, so the claim subtracts 10 and reports the repetition:
  score 80, level Strong. The code subtracts nothing: \<open>.\<close> in \<open>/(.)\1{2,}/\<close> does
  not match a line terminator.
\<close>

theorem calculateStrength_newlines:
  "calculateStrength (str ''Aa1!Aa1!'' @ [0x0A, 0x0A, 0x0A, 0x0A]) =
     \<lparr>score = 90, level = VeryStrong, feedback = []\<rparr>"
  by (simp add: calculateStrength_def test_class_def str_def is_lower_def is_upper_def
      is_digit_def is_special_def is_line_terminator_def canonicalize_def)

text \<open>
  Claim C4. The level that \<open>calculateStrength\<close> returns is the one the thresholds
  90, 75, 60, 40, 20, checked from the highest, give for the score it returns.
\<close>

theorem calculateStrength_level:
  "level (calculateStrength pw) =
     (if score (calculateStrength pw) \<ge> 90 then VeryStrong
      else if score (calculateStrength pw) \<ge> 75 then Strong
      else if score (calculateStrength pw) \<ge> 60 then Good
      else if score (calculateStrength pw) \<ge> 40 then Fair
      else if score (calculateStrength pw) \<ge> 20 then Weak
      else VeryWeak)"
  unfolding level_calculateStrength score_calculateStrength level_of_def
  by (simp add: max_def)

text \<open>
  Claim C8. \<open>calculateStrength\<close> is a total function with no error result; the score
  it returns lies between 0 and 90; on the empty string it returns score 0, level
  Very Weak, the length hint and the four hints that ask for a character class.
\<close>

theorem calculateStrength_total:
  "0 \<le> score (calculateStrength pw) \<and> score (calculateStrength pw) \<le> 90 \<and>
   calculateStrength [] =
     \<lparr>score = 0, level = VeryWeak,
      feedback = [''Password should be at least 8 characters long'',
                  ''Add lowercase letters'', ''Add uppercase letters'',
                  ''Add numbers'', ''Add special characters'']\<rparr>"
proof (intro conjI)
  show "0 \<le> score (calculateStrength pw)"
    by (simp add: score_calculateStrength)
  show "score (calculateStrength pw) \<le> 90"
    using raw_score_le [of pw] by (simp add: score_calculateStrength)
  show "calculateStrength [] =
     \<lparr>score = 0, level = VeryWeak,
      feedback = [''Password should be at least 8 characters long'',
                  ''Add lowercase letters'', ''Add uppercase letters'',
                  ''Add numbers'', ''Add special characters'']\<rparr>"
    by (simp add: calculateStrength_def test_class_def)
qed

section \<open>Properties of saveToHistory\<close>

text \<open>
  Claim C9. Whatever the history file held, \<open>saveToHistory\<close> writes a list whose
  first entry is the new one, followed by the first 99 entries of the old history: at
  most 100 entries, newest first, the oldest dropped.
\<close>

theorem saveToHistory_spec:
  "\<exists>h. saveToHistory uuid now pw opts file = Stored h \<and>
       h \<noteq> [] \<and> length h \<le> 100 \<and>
       id_entry (hd h) = uuid \<and> password (hd h) = pw \<and> createdAt (hd h) = now \<and>
       options (hd h) =
         \<lparr>length_h = length_opt opts,
          includeUppercase_h = includeUppercase opts,
          includeLowercase_h = includeLowercase opts,
          includeNumbers_h = includeNumbers opts,
          includeSymbols_h = includeSymbols opts,
          includeExtraSymbols_h = includeExtraSymbols opts\<rparr> \<and>
       tl h = take 99 (loadHistory file)"
  by (simp add: saveToHistory_def Let_def take_Cons')

section \<open>Properties of maskPassword\<close>

lemma maskPassword_short:
  "length pw \<le> 4 \<Longrightarrow> maskPassword pw = [BULLET, BULLET, BULLET, BULLET]"
  by (simp add: maskPassword_def)

lemma maskPassword_long:
  assumes "4 < length pw"
  shows "maskPassword pw = take 2 pw @ replicate (length pw - 4) BULLET @ drop (length pw - 2) pw"
  using assms by (simp add: maskPassword_def Let_def)

text \<open>
  Claim C10. A password of at most four units is masked as exactly four bullets. A
  longer one keeps its length, its first two and its last two units, and every
  position in between holds a bullet.
\<close>

theorem maskPassword_spec:
  "(length pw \<le> 4 \<longrightarrow> maskPassword pw = [BULLET, BULLET, BULLET, BULLET]) \<and>
   (4 < length pw \<longrightarrow>
      length (maskPassword pw) = length pw \<and>
      take 2 (maskPassword pw) = take 2 pw \<and>
      drop (length pw - 2) (maskPassword pw) = drop (length pw - 2) pw \<and>
      (\<forall>i. 2 \<le> i \<and> i < length pw - 2 \<longrightarrow> maskPassword pw ! i = BULLET))"
proof (intro conjI impI allI)
  assume "length pw \<le> 4"
  then show "maskPassword pw = [BULLET, BULLET, BULLET, BULLET]"
    by (rule maskPassword_short)
next
  assume long: "4 < length pw"
  note eq = maskPassword_long [OF long]
  show "length (maskPassword pw) = length pw"
    using long by (simp add: eq)
  show "take 2 (maskPassword pw) = take 2 pw"
    using long by (simp add: eq)
  show "drop (length pw - 2) (maskPassword pw) = drop (length pw - 2) pw"
    using long by (simp add: eq)
  fix i assume i: "2 \<le> i \<and> i < length pw - 2"
  then show "maskPassword pw ! i = BULLET"
    using long by (auto simp add: eq nth_append)
qed

theorem maskPassword_spec_witness:
  "maskPassword (str ''abc'') = [BULLET, BULLET, BULLET, BULLET] \<and>
   maskPassword (str ''secret1'') = str ''se'' @ [BULLET, BULLET, BULLET] @ str ''t1'' \<and>
   length (maskPassword (str ''secret1'')) = 7 \<and>
   maskPassword (str ''secret1'') ! 3 = BULLET"
  using maskPassword_spec [of "str ''abc''"] maskPassword_spec [of "str ''secret1''"]
  by (simp add: maskPassword_def str_def)

end
